theory Spec2Isabelle
  imports Complex_Main
begin

section \<open>Total variation denoising driver (tvdenoise.c)\<close>

text \<open>
  The C type \<open>num\<close> (a \<open>double\<close>, or a \<open>float\<close> under \<open>NUM_SINGLE\<close>) is modelled by
  \<^typ>\<open>real\<close>: arithmetic is exact, and rounding, infinities and NaN are outside the
  model. The C integers (\<open>int\<close>, \<open>long\<close>) are modelled by \<^typ>\<open>int\<close> without overflow.
  A pixel buffer (\<open>num *Data\<close>) is the list of its samples; the denoised buffer
  \<open>u.Data\<close> and the noisy buffer \<open>f.Data\<close> are distinct buffers, as \<open>main\<close>
  allocates them.
\<close>

subsection \<open>Data\<close>

record image =
  Data :: "real list"
  Width :: int
  Height :: int
  NumChannels :: int

record programparams =
  InputFile :: "string option"
  OutputFile :: "string option"
  JpegQuality :: int
  ParamModel :: string
  ParamSigma :: real
  ParamLambda :: real

definition DISPLAY_SCALING :: real where
  "DISPLAY_SCALING = 255"

definition LAMBDA_TUNE_ITERATIONS :: int where
  "LAMBDA_TUNE_ITERATIONS = 5"

text \<open>
  The data-model invariant of an image: positive dimensions and a buffer of
  \<open>Width * Height * NumChannels\<close> samples.
\<close>

definition NumSamples :: "image \<Rightarrow> int" where
  "NumSamples im = Width im * Height im * NumChannels im"

definition valid_image :: "image \<Rightarrow> bool" where
  "valid_image im \<longleftrightarrow>
     0 < Width im \<and> 0 < Height im \<and> 0 < NumChannels im \<and>
     int (length (Data im)) = NumSamples im"

subsection \<open>ComputeRmse\<close>

text \<open>
  The \<open>for\<close> loop of \<open>ComputeRmse\<close>: \<open>n\<close> runs from its start value up to \<open>N\<close>, and
  \<open>Rmse\<close> accumulates the squared differences. A read beyond the end of a buffer is
  undefined behaviour in C; the theorems below are stated for buffers of \<open>N\<close> samples.
\<close>

function ComputeRmse_loop :: "real list \<Rightarrow> real list \<Rightarrow> int \<Rightarrow> int \<Rightarrow> real \<Rightarrow> real" where
  "ComputeRmse_loop fD uD N n Rmse =
     (if n < N then
        (let Temp = fD ! nat n - uD ! nat n
         in ComputeRmse_loop fD uD N (n + 1) (Rmse + Temp * Temp))
      else Rmse)"
  by pat_completeness auto
termination
  by (relation "measure (\<lambda>(fD, uD, N, n, Rmse). nat (N - n))") auto

declare ComputeRmse_loop.simps [simp del]

definition ComputeRmse :: "image \<Rightarrow> image \<Rightarrow> real" where
  "ComputeRmse f u =
     (let N = Width u * Height u * NumChannels u
      in sqrt (ComputeRmse_loop (Data f) (Data u) N 0 0 / of_int N))"

text \<open>The residual metric as the specification words it.\<close>

definition Rmse_spec :: "real list \<Rightarrow> real list \<Rightarrow> real" where
  "Rmse_spec a b =
     sqrt ((1 / real (length a)) * (\<Sum>i < length a. (a ! i - b ! i)\<^sup>2))"

subsection \<open>The lambda estimate and its correction (inside LambdaTune)\<close>

text \<open>
  Lines 178 to 192 of \<open>LambdaTune\<close>: the empirical estimate of lambda for the three
  noise models, \<open>None\<close> for the \<open>return 0\<close> of an unrecognized model, and the floor.
\<close>

definition LambdaTune_estimate :: "string \<Rightarrow> real \<Rightarrow> real option" where
  "LambdaTune_estimate model sigma =
     (if model = ''gaussian'' then
        Some (0.7079 / sigma + 0.002686 / (sigma * sigma))
      else if model = ''laplace'' then
        Some ((- 0.00416 * sigma + 0.001301)
              / (((sigma - 0.2042) * sigma + 0.01635) * sigma + 0.0005836))
      else if model = ''poisson'' then
        Some (0.2839 / sigma + 0.001502 / (sigma * sigma))
      else None)"

definition LambdaTune_floor :: "real \<Rightarrow> real" where
  "LambdaTune_floor lambda = (if lambda < 0.0001 then 0.0001 else lambda)"

text \<open>Lines 215 to 218: the update of \<open>Lambda\<close> from the measured residual.\<close>

definition LambdaTune_correct :: "string \<Rightarrow> real \<Rightarrow> real \<Rightarrow> real \<Rightarrow> real" where
  "LambdaTune_correct model lambda rmse sigma =
     (if model = ''laplace'' then lambda * sqrt (rmse / sigma)
      else lambda * (rmse / sigma))"

subsection \<open>The solver interface (tvreg.h)\<close>

text \<open>
  Modelled from the spec: the noise model selected in the solver options, one of
  gaussian, laplace and poisson (\<open>tvreg.h\<close> and \<open>tvreg.c\<close> are not among the sources).
\<close>

datatype noise_model = Gaussian | Laplace | Poisson

text \<open>
  Modelled from the spec: the solver options \<open>tvregopt\<close>, holding the current lambda,
  the noise model, the convergence tolerance, the maximum number of iterations and
  whether a progress callback is installed.
\<close>

record tvregopt =
  OptLambda :: real
  OptNoiseModel :: noise_model
  OptTol :: real
  OptMaxIter :: int
  OptPlotFun :: bool

text \<open>
  Modelled from the spec: \<open>TvRegSetNoiseModel\<close> validates the name against exactly
  three recognized values and fails (\<open>None\<close>) on every other name.
\<close>

definition TvRegSetNoiseModel :: "tvregopt \<Rightarrow> string \<Rightarrow> tvregopt option" where
  "TvRegSetNoiseModel opt model =
     (if model = ''gaussian'' then Some (opt\<lparr>OptNoiseModel := Gaussian\<rparr>)
      else if model = ''laplace'' then Some (opt\<lparr>OptNoiseModel := Laplace\<rparr>)
      else if model = ''poisson'' then Some (opt\<lparr>OptNoiseModel := Poisson\<rparr>)
      else None)"

text \<open>
  Modelled from the spec: the setters of \<open>tvreg.h\<close> update one field of the options
  in place.
\<close>

definition TvRegSetLambda :: "tvregopt \<Rightarrow> real \<Rightarrow> tvregopt" where
  "TvRegSetLambda opt lambda = opt\<lparr>OptLambda := lambda\<rparr>"

definition TvRegSetTol :: "tvregopt \<Rightarrow> real \<Rightarrow> tvregopt" where
  "TvRegSetTol opt tol = opt\<lparr>OptTol := tol\<rparr>"

definition TvRegSetMaxIter :: "tvregopt \<Rightarrow> int \<Rightarrow> tvregopt" where
  "TvRegSetMaxIter opt maxiter = opt\<lparr>OptMaxIter := maxiter\<rparr>"

definition TvRegSetPlotFun :: "tvregopt \<Rightarrow> bool \<Rightarrow> tvregopt" where
  "TvRegSetPlotFun opt plotfun = opt\<lparr>OptPlotFun := plotfun\<rparr>"

text \<open>
  The two remaining functions of the solver library are parameters of the model:
  \<open>TvRegNewOpt\<close> yields fresh options, or \<open>None\<close> when the allocation fails, and
  \<open>TvRestore\<close> takes the options, the contents of \<open>u.Data\<close> (the initial guess) and the
  noisy image, and yields its status together with the new contents of \<open>u.Data\<close>.
\<close>

record tvreg =
  TvRegNewOpt :: "tvregopt option"
  TvRestore :: "tvregopt \<Rightarrow> real list \<Rightarrow> image \<Rightarrow> bool \<times> real list"

subsection \<open>State of one Denoise call\<close>

text \<open>
  The calls made on the solver library and to \<open>ComputeRmse\<close> are recorded in the order
  in which they happen: a \<open>CallRestore\<close> carries the options the solver was invoked
  with, a \<open>CallRmse\<close> the measured residual. What the functions print is not
  modelled.
\<close>

datatype call =
    CallSetNoiseModel string
  | CallSetPlotFun
  | CallSetTol real
  | CallSetMaxIter int
  | CallSetLambda real
  | CallRestore tvregopt
  | CallRmse real

record state =
  Opt :: tvregopt
  uData :: "real list"
  calls :: "call list"

definition SetLambda :: "real \<Rightarrow> state \<Rightarrow> state" where
  "SetLambda lambda st =
     st\<lparr>Opt := TvRegSetLambda (Opt st) lambda, calls := calls st @ [CallSetLambda lambda]\<rparr>"

definition SetTol :: "real \<Rightarrow> state \<Rightarrow> state" where
  "SetTol tol st =
     st\<lparr>Opt := TvRegSetTol (Opt st) tol, calls := calls st @ [CallSetTol tol]\<rparr>"

definition SetMaxIter :: "int \<Rightarrow> state \<Rightarrow> state" where
  "SetMaxIter maxiter st =
     st\<lparr>Opt := TvRegSetMaxIter (Opt st) maxiter, calls := calls st @ [CallSetMaxIter maxiter]\<rparr>"

definition SetPlotFun :: "state \<Rightarrow> state" where
  "SetPlotFun st =
     st\<lparr>Opt := TvRegSetPlotFun (Opt st) False, calls := calls st @ [CallSetPlotFun]\<rparr>"

text \<open>
  A call of \<open>TvRestore(u.Data, f.Data, f.Width, f.Height, f.NumChannels, Opt)\<close>: the
  buffer of \<open>u\<close> is overwritten with what the solver leaves there.
\<close>

definition Restore :: "tvreg \<Rightarrow> image \<Rightarrow> state \<Rightarrow> bool \<times> state" where
  "Restore env f st =
     (let r = TvRestore env (Opt st) (uData st) f
      in (fst r, st\<lparr>uData := snd r, calls := calls st @ [CallRestore (Opt st)]\<rparr>))"

text \<open>A call of \<open>ComputeRmse(f, u)\<close> on the current contents of \<open>u.Data\<close>.\<close>

definition MeasureRmse :: "image \<Rightarrow> image \<Rightarrow> state \<Rightarrow> real \<times> state" where
  "MeasureRmse f u st =
     (let rmse = ComputeRmse f (u\<lparr>Data := uData st\<rparr>)
      in (rmse, st\<lparr>calls := calls st @ [CallRmse rmse]\<rparr>))"

subsection \<open>LambdaTune\<close>

text \<open>
  The body of the tuning loop (lines 207 to 221): one solver call, on whose failure
  the function returns 0, then the residual, the correction of \<open>Lambda\<close> and its
  storage in the options. The result is the status, the new \<open>Lambda\<close> and the state.
\<close>

definition LambdaTune_round ::
  "tvreg \<Rightarrow> image \<Rightarrow> image \<Rightarrow> string \<Rightarrow> real \<Rightarrow> real \<Rightarrow> state \<Rightarrow> bool \<times> real \<times> state" where
  "LambdaTune_round env u f model sigma lambda st =
     (let r = Restore env f st
      in if \<not> fst r then (False, lambda, snd r)
         else
           (let m = MeasureRmse f u (snd r);
                lambda' = LambdaTune_correct model lambda (fst m) sigma
            in (True, lambda', SetLambda lambda' (snd m))))"

function LambdaTune_loop ::
  "tvreg \<Rightarrow> image \<Rightarrow> image \<Rightarrow> string \<Rightarrow> real \<Rightarrow> int \<Rightarrow> real \<Rightarrow> state \<Rightarrow> bool \<times> state" where
  "LambdaTune_loop env u f model sigma k lambda st =
     (if k < LAMBDA_TUNE_ITERATIONS then
        (let r = LambdaTune_round env u f model sigma lambda st
         in if fst r
            then LambdaTune_loop env u f model sigma (k + 1) (fst (snd r)) (snd (snd r))
            else (False, snd (snd r)))
      else (True, st))"
  by pat_completeness auto
termination
  by (relation "measure (\<lambda>(env, u, f, model, sigma, k, lambda, st).
        nat (LAMBDA_TUNE_ITERATIONS - k))") auto

declare LambdaTune_loop.simps [simp del]

definition LambdaTune ::
  "tvreg \<Rightarrow> image \<Rightarrow> image \<Rightarrow> string \<Rightarrow> real \<Rightarrow> state \<Rightarrow> bool \<times> state" where
  "LambdaTune env u f model sigma st =
     (case LambdaTune_estimate model sigma of
        None \<Rightarrow> (False, st)
      | Some lambda0 \<Rightarrow>
          (let lambda = LambdaTune_floor lambda0
           in LambdaTune_loop env u f model sigma 0 lambda (SetLambda lambda st)))"

subsection \<open>Denoise\<close>

text \<open>\<open>memcpy(dst, src, n)\<close> on sample buffers, \<open>n\<close> counted in samples.\<close>

definition memcpy :: "real list \<Rightarrow> real list \<Rightarrow> nat \<Rightarrow> real list" where
  "memcpy dst src n = take n src @ drop n dst"

text \<open>
  \<open>Denoise\<close> returns its status (\<open>Success\<close>), the final contents of \<open>u.Data\<close> and the
  calls it made. The argument \<open>u\<close> carries the dimensions of the denoised image and the
  contents of its buffer on entry.
\<close>

definition Denoise_final :: "tvreg \<Rightarrow> image \<Rightarrow> image \<Rightarrow> real \<Rightarrow> state \<Rightarrow> bool \<times> state" where
  "Denoise_final env u f sigma st =
     (let r = Restore env f (SetMaxIter 100 (SetTol 0.0005 st))
      in if \<not> fst r then (False, snd r)
         else if sigma > 0 then (True, snd (MeasureRmse f u (snd r)))
         else (True, snd r))"

definition Denoise ::
  "tvreg \<Rightarrow> image \<Rightarrow> image \<Rightarrow> string \<Rightarrow> real \<Rightarrow> real \<Rightarrow> bool \<times> real list \<times> call list" where
  "Denoise env u f model sigma lambda =
     (case TvRegNewOpt env of
        None \<Rightarrow> (False, Data u, [])
      | Some opt0 \<Rightarrow>
          (case TvRegSetNoiseModel opt0 model of
             None \<Rightarrow> (False, Data u, [CallSetNoiseModel model])
           | Some opt1 \<Rightarrow>
               (let st0 = \<lparr>Opt = opt1,
                           uData = memcpy (Data u) (Data f)
                                     (nat (Width f * Height f * NumChannels f)),
                           calls = [CallSetNoiseModel model]\<rparr>;
                    st1 = SetMaxIter 40 (SetTol 0.01 (SetPlotFun st0));
                    t = (if sigma \<le> 0 then (True, SetLambda lambda st1)
                         else LambdaTune env u f model sigma st1);
                    r = (if \<not> fst t then (False, snd t)
                         else Denoise_final env u f sigma (snd t))
                in (fst r, uData (snd r), calls (snd r)))))"

subsection \<open>ParseParams\<close>

datatype parse_error =
    HelpPrinted
  | InvalidFormat
  | SigmaNotPositive
  | LambdaNotPositive
  | JpegQualityRange
  | UnknownOption
  | NeitherSpecified

text \<open>
  The \<open>switch\<close> on the option character. \<open>atof\<close> and \<open>atoi\<close> of the C library are
  parameters, and so is whether \<open>LIBJPEG_SUPPORT\<close> is defined. For \<open>-n\<close> the model
  name is the option string up to its first colon, and sigma is what follows it.
\<close>

definition ParseOption ::
  "bool \<Rightarrow> (string \<Rightarrow> real) \<Rightarrow> (string \<Rightarrow> int) \<Rightarrow> char \<Rightarrow> string \<Rightarrow> programparams
     \<Rightarrow> parse_error + programparams" where
  "ParseOption libjpeg atof atoi OptionChar OptionString P =
     (if OptionChar = CHR ''n'' then
        (let P1 = P\<lparr>ParamModel := takeWhile (\<lambda>c. c \<noteq> CHR '':'') OptionString\<rparr>
         in if CHR '':'' \<in> set OptionString then
              (let P2 = P1\<lparr>ParamSigma :=
                         atof (tl (dropWhile (\<lambda>c. c \<noteq> CHR '':'') OptionString))
                           / DISPLAY_SCALING\<rparr>
               in if ParamSigma P2 \<le> 0 then Inl SigmaNotPositive else Inr P2)
            else Inr P1)
      else if OptionChar = CHR ''l'' then
        (let P1 = P\<lparr>ParamLambda := atof OptionString\<rparr>
         in if ParamLambda P1 \<le> 0 then Inl LambdaNotPositive else Inr P1)
      else if libjpeg \<and> OptionChar = CHR ''q'' then
        (let P1 = P\<lparr>JpegQuality := atoi OptionString\<rparr>
         in if JpegQuality P1 \<le> 0 \<or> JpegQuality P1 > 100 then Inl JpegQualityRange
            else Inr P1)
      else if OptionChar = CHR ''-'' then Inl HelpPrinted
      else Inl UnknownOption)"

text \<open>
  The \<open>for\<close> loop over \<open>argv[1..argc-1]\<close>, on the arguments not yet consumed. An
  option takes its string from the rest of its own argument or, when that is empty,
  from the next argument.
\<close>

fun ParseParams_loop ::
  "bool \<Rightarrow> (string \<Rightarrow> real) \<Rightarrow> (string \<Rightarrow> int) \<Rightarrow> programparams \<Rightarrow> string list
     \<Rightarrow> parse_error + programparams" where
  "ParseParams_loop libjpeg atof atoi P [] = Inr P"
| "ParseParams_loop libjpeg atof atoi P (a # rest) =
     (if a \<noteq> [] \<and> hd a = CHR ''-'' then
        (if tl a = [] then Inl InvalidFormat
         else if tl (tl a) \<noteq> [] then
           (case ParseOption libjpeg atof atoi (hd (tl a)) (tl (tl a)) P of
              Inl e \<Rightarrow> Inl e
            | Inr P' \<Rightarrow> ParseParams_loop libjpeg atof atoi P' rest)
         else
           (case rest of
              [] \<Rightarrow> Inl InvalidFormat
            | b # rest' \<Rightarrow>
                (case ParseOption libjpeg atof atoi (hd (tl a)) b P of
                   Inl e \<Rightarrow> Inl e
                 | Inr P' \<Rightarrow> ParseParams_loop libjpeg atof atoi P' rest')))
      else if InputFile P = None then
        ParseParams_loop libjpeg atof atoi (P\<lparr>InputFile := Some a\<rparr>) rest
      else
        ParseParams_loop libjpeg atof atoi (P\<lparr>OutputFile := Some a\<rparr>) rest)"

definition ParseParams_defaults :: programparams where
  "ParseParams_defaults =
     \<lparr>InputFile = None, OutputFile = None, JpegQuality = 95,
      ParamModel = ''gaussian'', ParamSigma = - 1, ParamLambda = - 1\<rparr>"

definition ParseParams ::
  "bool \<Rightarrow> (string \<Rightarrow> real) \<Rightarrow> (string \<Rightarrow> int) \<Rightarrow> string list
     \<Rightarrow> parse_error + programparams" where
  "ParseParams libjpeg atof atoi argv =
     (if length argv < 2 then Inl HelpPrinted
      else
        (case ParseParams_loop libjpeg atof atoi ParseParams_defaults (tl argv) of
           Inl e \<Rightarrow> Inl e
         | Inr P \<Rightarrow>
             if InputFile P = None then Inl HelpPrinted
             else if ParamSigma P < 0 \<and> ParamLambda P < 0 then Inl NeitherSpecified
             else Inr P))"

subsection \<open>The specification's formulas\<close>

text \<open>
  The initial estimate of lambda as the specification words it: one closed-form fit
  for each noise model, clamped from below to \<open>1e-4\<close>.
\<close>

definition InitialLambda_spec :: "noise_model \<Rightarrow> real \<Rightarrow> real" where
  "InitialLambda_spec nm sigma =
     max 0.0001
       (case nm of
          Gaussian \<Rightarrow> 0.7079 / sigma + 0.002686 / sigma\<^sup>2
        | Laplace \<Rightarrow> (- 0.00416 * sigma + 0.001301)
                       / (((sigma - 0.2042) * sigma + 0.01635) * sigma + 0.0005836)
        | Poisson \<Rightarrow> 0.2839 / sigma + 0.001502 / sigma\<^sup>2)"

text \<open>
  The correction of lambda as the specification words it: the square root of the
  residual ratio for laplace, the ratio itself for gaussian and poisson.
\<close>

definition CorrectLambda_spec :: "noise_model \<Rightarrow> real \<Rightarrow> real \<Rightarrow> real \<Rightarrow> real" where
  "CorrectLambda_spec nm lambda rmse sigma =
     (case nm of
        Laplace \<Rightarrow> lambda * sqrt (rmse / sigma)
      | Gaussian \<Rightarrow> lambda * (rmse / sigma)
      | Poisson \<Rightarrow> lambda * (rmse / sigma))"

subsection \<open>Reading the recorded calls\<close>

text \<open>The three calls of one completed tuning round.\<close>

fun round_calls :: "tvregopt \<times> real \<times> real \<Rightarrow> call list" where
  "round_calls (opt, rmse, lambda) =
     [CallRestore opt, CallRmse rmse, CallSetLambda lambda]"

text \<open>
  \<open>zero_sticks z cs\<close> reads the calls \<open>cs\<close> from left to right: once a zero residual
  has been measured (the flag \<open>z\<close>), every later solver call must carry lambda 0.
  \<open>zero_seen z cs\<close> is the flag after \<open>cs\<close>.
\<close>

fun zero_sticks :: "bool \<Rightarrow> call list \<Rightarrow> bool" where
  "zero_sticks z [] = True"
| "zero_sticks z (CallRmse r # cs) = zero_sticks (z \<or> r = 0) cs"
| "zero_sticks z (CallRestore opt # cs) = ((z \<longrightarrow> OptLambda opt = 0) \<and> zero_sticks z cs)"
| "zero_sticks z (c # cs) = zero_sticks z cs"

fun zero_seen :: "bool \<Rightarrow> call list \<Rightarrow> bool" where
  "zero_seen z [] = z"
| "zero_seen z (CallRmse r # cs) = zero_seen (z \<or> r = 0) cs"
| "zero_seen z (c # cs) = zero_seen z cs"

text \<open>
  The invariant of the parsing loop: sigma and lambda each hold their default \<open>-1\<close>
  or a positive value given by the user.
\<close>

definition set_or_default :: "programparams \<Rightarrow> bool" where
  "set_or_default P \<longleftrightarrow>
     (ParamSigma P = - 1 \<or> 0 < ParamSigma P) \<and>
     (ParamLambda P = - 1 \<or> 0 < ParamLambda P)"

subsection \<open>Example inputs\<close>

definition image_f0 :: image where
  "image_f0 = \<lparr>Data = [3, 0], Width = 2, Height = 1, NumChannels = 1\<rparr>"

definition image_u0 :: image where
  "image_u0 = \<lparr>Data = [1, 2], Width = 2, Height = 1, NumChannels = 1\<rparr>"

definition image_f1 :: image where
  "image_f1 = \<lparr>Data = [2, 2], Width = 2, Height = 1, NumChannels = 1\<rparr>"

text \<open>
  Two solvers that always succeed: \<open>tvreg_keep\<close> leaves \<open>u\<close> as it is,
  \<open>tvreg_flat\<close> overwrites it with zeros.
\<close>

definition opt_default :: tvregopt where
  "opt_default = \<lparr>OptLambda = 25, OptNoiseModel = Gaussian, OptTol = 0.001,
                   OptMaxIter = 100, OptPlotFun = True\<rparr>"

definition tvreg_keep :: tvreg where
  "tvreg_keep = \<lparr>TvRegNewOpt = Some opt_default,
                  TvRestore = (\<lambda>opt uD f. (True, uD))\<rparr>"

definition tvreg_flat :: tvreg where
  "tvreg_flat = \<lparr>TvRegNewOpt = Some opt_default,
                  TvRestore = (\<lambda>opt uD f. (True, map (\<lambda>x. 0) uD))\<rparr>"

definition state_s0 :: state where
  "state_s0 = \<lparr>Opt = opt_default\<lparr>OptLambda := 3\<rparr>, uData = [2, 2], calls = []\<rparr>"

text \<open>
  Stand-ins for \<open>atof\<close> and \<open>atoi\<close> on strings of decimal digits, and three command
  lines.
\<close>

definition atof_digits :: "string \<Rightarrow> real" where
  "atof_digits s = real (foldl (\<lambda>n c. 10 * n + (of_char c - 48)) 0 s)"

definition atoi_digits :: "string \<Rightarrow> int" where
  "atoi_digits s = int (foldl (\<lambda>n c. 10 * n + (of_char c - 48)) 0 s)"

definition argv_both :: "string list" where
  "argv_both = [''tvdenoise'', ''-n'', ''gaussian:10'', ''-l'', ''5'',
                ''noisy.bmp'', ''denoised.bmp'']"

definition argv_sigma :: "string list" where
  "argv_sigma = [''tvdenoise'', ''-nlaplace:10'', ''noisy.bmp'', ''denoised.bmp'']"

definition argv_neither :: "string list" where
  "argv_neither = [''tvdenoise'', ''-n'', ''laplace'', ''noisy.bmp'', ''denoised.bmp'']"

section \<open>Properties\<close>

subsection \<open>ComputeRmse\<close>

lemma ComputeRmse_loop_sum:
  "0 \<le> n \<Longrightarrow>
   ComputeRmse_loop fD uD N n R = R + (\<Sum>i = nat n..<nat N. (fD ! i - uD ! i)\<^sup>2)"
proof (induction fD uD N n R rule: ComputeRmse_loop.induct)
  case (1 fD uD N n R)
  show ?case
  proof (cases "n < N")
    case True
    with "1.prems" have lt: "nat n < nat N" and suc: "nat (n + 1) = Suc (nat n)"
      by auto
    have "ComputeRmse_loop fD uD N n R
            = ComputeRmse_loop fD uD N (n + 1)
                (R + (fD ! nat n - uD ! nat n) * (fD ! nat n - uD ! nat n))"
      using True by (subst ComputeRmse_loop.simps) (simp add: Let_def)
    also have "\<dots> = R + (fD ! nat n - uD ! nat n) * (fD ! nat n - uD ! nat n)
                   + (\<Sum>i = nat (n + 1)..<nat N. (fD ! i - uD ! i)\<^sup>2)"
      using "1.IH" [OF True refl] "1.prems" by simp
    also have "\<dots> = R + (\<Sum>i = nat n..<nat N. (fD ! i - uD ! i)\<^sup>2)"
      using lt by (simp add: suc sum.atLeast_Suc_lessThan power2_eq_square)
    finally show ?thesis .
  next
    case False
    then show ?thesis
      using "1.prems" by (subst ComputeRmse_loop.simps) simp
  qed
qed

lemma ComputeRmse_sum:
  "ComputeRmse f u =
     sqrt ((\<Sum>i < nat (NumSamples u). (Data f ! i - Data u ! i)\<^sup>2)
           / of_int (NumSamples u))"
  by (simp add: ComputeRmse_def NumSamples_def Let_def ComputeRmse_loop_sum
      lessThan_atLeast0)

text \<open>
  C7: for two images of identical length \<open>N = Width * Height * NumChannels\<close>,
  \<open>ComputeRmse\<close> is the square root of \<open>1 / N\<close> times the sum of the squared sample
  differences.
\<close>

theorem ComputeRmse_formula:
  assumes "valid_image u" and "length (Data f) = length (Data u)"
  shows "ComputeRmse f u = Rmse_spec (Data f) (Data u)"
proof -
  from assms have N: "NumSamples u = int (length (Data f))"
    by (simp add: valid_image_def)
  show ?thesis
    by (simp add: ComputeRmse_sum Rmse_spec_def N)
qed

theorem ComputeRmse_formula_witness:
  "valid_image image_u0 \<and> length (Data image_f0) = length (Data image_u0) \<and>
   ComputeRmse image_f0 image_u0 = Rmse_spec (Data image_f0) (Data image_u0) \<and>
   Rmse_spec (Data image_f0) (Data image_u0) = 2"
proof -
  have v: "valid_image image_u0"
    by (simp add: valid_image_def NumSamples_def image_u0_def)
  have l: "length (Data image_f0) = length (Data image_u0)"
    by (simp add: image_f0_def image_u0_def)
  have "Rmse_spec (Data image_f0) (Data image_u0) = sqrt 4"
    by (simp add: Rmse_spec_def image_f0_def image_u0_def numeral_2_eq_2)
  then have "Rmse_spec (Data image_f0) (Data image_u0) = 2"
    by simp
  with v l ComputeRmse_formula [OF v l] show ?thesis
    by simp
qed

text \<open>
  C8: the residual of an image against itself is 0, and the residual of two images
  of equal shape does not depend on their order.
\<close>

theorem ComputeRmse_zero_and_symmetric:
  assumes "valid_image a" and "valid_image b"
    and "Width a = Width b" and "Height a = Height b" and "NumChannels a = NumChannels b"
  shows "ComputeRmse a a = 0 \<and> ComputeRmse a b = ComputeRmse b a"
proof -
  from assms have N: "NumSamples a = NumSamples b"
    by (simp add: NumSamples_def)
  have "ComputeRmse a a = 0"
    by (simp add: ComputeRmse_sum)
  moreover have "ComputeRmse a b = ComputeRmse b a"
    by (simp add: ComputeRmse_sum N power2_commute [of "Data a ! _"])
  ultimately show ?thesis by simp
qed

theorem ComputeRmse_zero_and_symmetric_witness:
  "valid_image image_f0 \<and> valid_image image_u0 \<and>
   Width image_f0 = Width image_u0 \<and> Height image_f0 = Height image_u0 \<and>
   NumChannels image_f0 = NumChannels image_u0 \<and>
   ComputeRmse image_f0 image_f0 = 0 \<and>
   ComputeRmse image_f0 image_u0 = ComputeRmse image_u0 image_f0"
proof -
  have vf: "valid_image image_f0" and vu: "valid_image image_u0"
    by (simp_all add: valid_image_def NumSamples_def image_f0_def image_u0_def)
  have w: "Width image_f0 = Width image_u0"
    and h: "Height image_f0 = Height image_u0"
    and c: "NumChannels image_f0 = NumChannels image_u0"
    by (simp_all add: image_f0_def image_u0_def)
  from ComputeRmse_zero_and_symmetric [OF vf vu w h c] vf vu w h c
  show ?thesis by simp
qed

subsection \<open>The correction of lambda\<close>

text \<open>
  C6: for a fixed \<open>sigma > 0\<close> and \<open>lambda \<ge> 0\<close>, and for every model, the corrected
  lambda does not decrease when the measured residual grows from \<open>rmse1 \<ge> 0\<close> to
  \<open>rmse2 \<ge> rmse1\<close>.
\<close>

theorem LambdaTune_correct_mono:
  assumes "0 < sigma" and "0 \<le> lambda" and "0 \<le> rmse1" and "rmse1 \<le> rmse2"
  shows "LambdaTune_correct model lambda rmse1 sigma
           \<le> LambdaTune_correct model lambda rmse2 sigma"
proof -
  from assms have ratio: "rmse1 / sigma \<le> rmse2 / sigma"
    by (simp add: divide_right_mono)
  then have root: "sqrt (rmse1 / sigma) \<le> sqrt (rmse2 / sigma)"
    by (simp only: real_sqrt_le_iff)
  show ?thesis
  proof (cases "model = ''laplace''")
    case True
    then show ?thesis
      using mult_left_mono [OF root \<open>0 \<le> lambda\<close>]
      by (simp only: LambdaTune_correct_def if_True refl simp_thms)
  next
    case False
    then show ?thesis
      using mult_left_mono [OF ratio \<open>0 \<le> lambda\<close>]
      by (simp only: LambdaTune_correct_def if_False simp_thms)
  qed
qed

theorem LambdaTune_correct_mono_witness:
  "(0::real) < 2 \<and> (0::real) \<le> 3 \<and> (0::real) \<le> 2 \<and> (2::real) \<le> 8 \<and>
   LambdaTune_correct ''laplace'' 3 2 2 \<le> LambdaTune_correct ''laplace'' 3 8 2 \<and>
   LambdaTune_correct ''laplace'' 3 2 2 = 3 \<and> LambdaTune_correct ''laplace'' 3 8 2 = 6"
proof -
  have "LambdaTune_correct ''laplace'' 3 2 2 \<le> LambdaTune_correct ''laplace'' 3 8 2"
    using LambdaTune_correct_mono [of 2 3 2 8 "''laplace''"] by simp
  moreover have "LambdaTune_correct ''laplace'' 3 2 2 = 3"
    by (simp add: LambdaTune_correct_def)
  moreover have "LambdaTune_correct ''laplace'' 3 8 2 = 6"
    by (simp add: LambdaTune_correct_def)
  ultimately show ?thesis by simp
qed

subsection \<open>The tuning round and the tuning loop\<close>

lemma LambdaTune_round_ok:
  assumes "fst (TvRestore env (Opt st) (uData st) f)"
  shows "LambdaTune_round env u f model sigma lambda st =
     (let uD = snd (TvRestore env (Opt st) (uData st) f);
          rmse = ComputeRmse f (u\<lparr>Data := uD\<rparr>);
          lambda' = LambdaTune_correct model lambda rmse sigma
      in (True, lambda',
          \<lparr>Opt = (Opt st)\<lparr>OptLambda := lambda'\<rparr>, uData = uD,
           calls = calls st @ round_calls (Opt st, rmse, lambda')\<rparr>))"
  using assms
  by (simp add: LambdaTune_round_def Restore_def MeasureRmse_def SetLambda_def
      TvRegSetLambda_def Let_def)

lemma LambdaTune_round_fail:
  assumes "\<not> fst (TvRestore env (Opt st) (uData st) f)"
  shows "LambdaTune_round env u f model sigma lambda st =
     (False, lambda,
      st\<lparr>uData := snd (TvRestore env (Opt st) (uData st) f),
         calls := calls st @ [CallRestore (Opt st)]\<rparr>)"
  using assms by (simp add: LambdaTune_round_def Restore_def Let_def)

text \<open>A failing solver call ends the tuning loop at once, with status 0.\<close>

lemma LambdaTune_loop_solver_failure:
  assumes "\<not> fst (TvRestore env (Opt st) (uData st) f)" and "k < LAMBDA_TUNE_ITERATIONS"
  shows "LambdaTune_loop env u f model sigma k lambda st =
           (False, st\<lparr>uData := snd (TvRestore env (Opt st) (uData st) f),
                      calls := calls st @ [CallRestore (Opt st)]\<rparr>)"
  using assms
  by (subst LambdaTune_loop.simps) (simp add: LambdaTune_round_fail Let_def)

lemma LambdaTune_loop_rounds:
  assumes ok: "\<And>opt uD. fst (TvRestore env opt uD f)"
  shows "k \<le> LAMBDA_TUNE_ITERATIONS \<Longrightarrow>
    \<exists>rs st'. LambdaTune_loop env u f model sigma k lambda st = (True, st') \<and>
       length rs = nat (LAMBDA_TUNE_ITERATIONS - k) \<and>
       calls st' = calls st @ concat (map round_calls rs)"
  using ok
proof (induction env u f model sigma k lambda st rule: LambdaTune_loop.induct)
  case (1 env u f model sigma k lambda st)
  show ?case
  proof (cases "k < LAMBDA_TUNE_ITERATIONS")
    case False
    with "1.prems" show ?thesis
      by (subst LambdaTune_loop.simps) simp
  next
    case True
    define r where "r = LambdaTune_round env u f model sigma lambda st"
    have solve: "fst (TvRestore env (Opt st) (uData st) f)"
      by (rule "1.prems"(2))
    define rc where "rc = (Opt st,
        ComputeRmse f (u\<lparr>Data := snd (TvRestore env (Opt st) (uData st) f)\<rparr>), fst (snd r))"
    have r1: "fst r"
      and cs: "calls (snd (snd r)) = calls st @ round_calls rc"
      unfolding r_def rc_def using LambdaTune_round_ok [OF solve, of u model sigma lambda]
      by (simp_all add: Let_def)
    from True have "k + 1 \<le> LAMBDA_TUNE_ITERATIONS" by simp
    from "1.IH" [OF True r_def r1 this "1.prems"(2)]
    obtain rs st' where
      loop: "LambdaTune_loop env u f model sigma (k + 1) (fst (snd r)) (snd (snd r)) = (True, st')"
      and len: "length rs = nat (LAMBDA_TUNE_ITERATIONS - (k + 1))"
      and cs': "calls st' = calls (snd (snd r)) @ concat (map round_calls rs)"
      by blast
    have "LambdaTune_loop env u f model sigma k lambda st = (True, st')"
      using True r1 loop by (subst LambdaTune_loop.simps) (simp add: Let_def r_def)
    moreover have "length (rc # rs) = nat (LAMBDA_TUNE_ITERATIONS - k)"
      using len True by simp
    moreover have "calls st' = calls st @ concat (map round_calls (rc # rs))"
      using cs cs' by simp
    ultimately show ?thesis by blast
  qed
qed

lemma LambdaTune_loop_appends:
  "\<exists>ext. calls (snd (LambdaTune_loop env u f model sigma k lambda st)) = calls st @ ext"
proof (induction env u f model sigma k lambda st rule: LambdaTune_loop.induct)
  case (1 env u f model sigma k lambda st)
  define r where "r = LambdaTune_round env u f model sigma lambda st"
  have r: "\<exists>ext. calls (snd (snd r)) = calls st @ ext"
    by (simp add: r_def LambdaTune_round_def Restore_def MeasureRmse_def SetLambda_def Let_def)
  show ?case
  proof (cases "k < LAMBDA_TUNE_ITERATIONS \<and> fst r")
    case True
    with "1.IH" [OF _ r_def] r show ?thesis
      by (subst LambdaTune_loop.simps) (auto simp: Let_def r_def [symmetric])
  next
    case False
    with r show ?thesis
      by (subst LambdaTune_loop.simps) (auto simp: Let_def r_def [symmetric])
  qed
qed

lemma LambdaTune_estimate_recognized:
  "model \<in> {''gaussian'', ''laplace'', ''poisson''} \<Longrightarrow> \<exists>l. LambdaTune_estimate model sigma = Some l"
  by (auto simp: LambdaTune_estimate_def)

lemma TvRegSetNoiseModel_recognized:
  "model \<in> {''gaussian'', ''laplace'', ''poisson''} \<Longrightarrow> \<exists>opt'. TvRegSetNoiseModel opt model = Some opt'"
  by (auto simp: TvRegSetNoiseModel_def)

text \<open>
  For \<open>sigma > 0\<close> the denominator of the laplace estimate is positive, so none of
  the three quotients of the estimate divides by zero.
\<close>

lemma laplace_denominator_pos:
  assumes "0 < (sigma::real)"
  shows "0 < ((sigma - 0.2042) * sigma + 0.01635) * sigma + 0.0005836"
proof -
  have "0 \<le> (sigma - 0.1021)\<^sup>2" by simp
  then have "0 < (sigma - 0.2042) * sigma + 0.01635"
    by (simp add: power2_eq_square algebra_simps)
  with assms have "0 < ((sigma - 0.2042) * sigma + 0.01635) * sigma"
    by simp
  then show ?thesis by simp
qed

text \<open>
  C5: in a tuning round whose solver call succeeds, the new lambda is the old one
  times the square root of \<open>rmse / sigma\<close> for the laplace model and times
  \<open>rmse / sigma\<close> for the gaussian and poisson models, where \<open>rmse\<close> is the residual
  measured after the solver call; it is stored in the solver options, which is the
  last call of the round.
\<close>

theorem LambdaTune_round_correction:
  assumes solve: "fst (TvRestore env (Opt st) (uData st) f)"
    and model: "TvRegSetNoiseModel opt model = Some opt'"
  shows "let rmse = ComputeRmse f (u\<lparr>Data := snd (TvRestore env (Opt st) (uData st) f)\<rparr>);
             r = LambdaTune_round env u f model sigma lambda st;
             lambda' = CorrectLambda_spec (OptNoiseModel opt') lambda rmse sigma
         in fst r \<and> fst (snd r) = lambda' \<and> OptLambda (Opt (snd (snd r))) = lambda' \<and>
            calls (snd (snd r)) =
              calls st @ [CallRestore (Opt st), CallRmse rmse, CallSetLambda lambda']"
proof -
  have "LambdaTune_correct model lambda rmse sigma
          = CorrectLambda_spec (OptNoiseModel opt') lambda rmse sigma" for rmse
    using model
    by (auto simp: TvRegSetNoiseModel_def LambdaTune_correct_def CorrectLambda_spec_def
        split: if_splits)
  then show ?thesis
    by (simp add: LambdaTune_round_ok [OF solve] Let_def)
qed

theorem LambdaTune_round_correction_witness:
  "fst (TvRestore tvreg_flat (Opt state_s0) (uData state_s0) image_f1) \<and>
   TvRegSetNoiseModel opt_default ''laplace'' = Some (opt_default\<lparr>OptNoiseModel := Laplace\<rparr>) \<and>
   LambdaTune_round tvreg_flat image_u0 image_f1 ''laplace'' (1 / 2) 3 state_s0 =
     (True, 6,
      \<lparr>Opt = opt_default\<lparr>OptLambda := 6\<rparr>, uData = [0, 0],
       calls = [CallRestore (opt_default\<lparr>OptLambda := 3\<rparr>), CallRmse 2, CallSetLambda 6]\<rparr>) \<and>
   CorrectLambda_spec Laplace 3 2 (1 / 2) = 6"
proof -
  have solve: "fst (TvRestore tvreg_flat (Opt state_s0) (uData state_s0) image_f1)"
    by (simp add: tvreg_flat_def)
  have model: "TvRegSetNoiseModel opt_default ''laplace''
                 = Some (opt_default\<lparr>OptNoiseModel := Laplace\<rparr>)"
    by (simp add: TvRegSetNoiseModel_def)
  have rmse: "ComputeRmse image_f1
      (image_u0\<lparr>Data := snd (TvRestore tvreg_flat (Opt state_s0) (uData state_s0) image_f1)\<rparr>)
      = 2"
    by (simp add: ComputeRmse_sum NumSamples_def tvreg_flat_def state_s0_def image_f1_def
        image_u0_def numeral_2_eq_2)
  have spec: "CorrectLambda_spec Laplace 3 2 (1 / 2) = 6"
    by (simp add: CorrectLambda_spec_def)
  from LambdaTune_round_correction [OF solve model, of image_u0 "1 / 2" 3]
  have "LambdaTune_round tvreg_flat image_u0 image_f1 ''laplace'' (1 / 2) 3 state_s0 =
     (True, 6,
      \<lparr>Opt = opt_default\<lparr>OptLambda := 6\<rparr>, uData = [0, 0],
       calls = [CallRestore (opt_default\<lparr>OptLambda := 3\<rparr>), CallRmse 2, CallSetLambda 6]\<rparr>)"
    by (simp add: rmse spec Let_def LambdaTune_round_ok [OF solve])
       (simp add: tvreg_flat_def state_s0_def)
  with solve model spec show ?thesis by simp
qed

text \<open>
  C4: for \<open>sigma > 0\<close> and a recognized model, the lambda the tuner starts from is the
  closed-form estimate of the model clamped from below to \<open>1e-4\<close>; it is at least
  \<open>1e-4\<close>, and storing it in the options is the first call \<open>LambdaTune\<close> makes.
\<close>

theorem LambdaTune_initial_lambda:
  assumes sigma: "0 < sigma"
    and model: "TvRegSetNoiseModel opt model = Some opt'"
  shows "map_option LambdaTune_floor (LambdaTune_estimate model sigma)
           = Some (InitialLambda_spec (OptNoiseModel opt') sigma) \<and>
         0.0001 \<le> InitialLambda_spec (OptNoiseModel opt') sigma \<and>
         (\<exists>ext. calls (snd (LambdaTune env u f model sigma st))
                  = calls st @ CallSetLambda (InitialLambda_spec (OptNoiseModel opt') sigma) # ext)"
proof -
  have est: "map_option LambdaTune_floor (LambdaTune_estimate model sigma)
           = Some (InitialLambda_spec (OptNoiseModel opt') sigma)"
    using model
    by (auto simp: TvRegSetNoiseModel_def LambdaTune_estimate_def LambdaTune_floor_def
        InitialLambda_spec_def power2_eq_square max_def split: if_splits)
  have floor: "0.0001 \<le> InitialLambda_spec (OptNoiseModel opt') sigma"
    by (simp add: InitialLambda_spec_def)
  from est obtain l0 where l0: "LambdaTune_estimate model sigma = Some l0"
    and fl: "LambdaTune_floor l0 = InitialLambda_spec (OptNoiseModel opt') sigma"
    by auto
  have "\<exists>ext. calls (snd (LambdaTune env u f model sigma st))
                  = calls st @ CallSetLambda (InitialLambda_spec (OptNoiseModel opt') sigma) # ext"
    using LambdaTune_loop_appends [of env u f model sigma 0 "LambdaTune_floor l0"
        "SetLambda (LambdaTune_floor l0) st"]
    by (auto simp: LambdaTune_def l0 Let_def fl SetLambda_def)
  with est floor show ?thesis by blast
qed

theorem LambdaTune_initial_lambda_witness:
  "(0::real) < 2 \<and>
   TvRegSetNoiseModel opt_default ''gaussian'' = Some (opt_default\<lparr>OptNoiseModel := Gaussian\<rparr>) \<and>
   map_option LambdaTune_floor (LambdaTune_estimate ''gaussian'' 2) = Some 0.3546215 \<and>
   InitialLambda_spec Gaussian 2 = 0.3546215 \<and>
   (\<exists>ext. calls (snd (LambdaTune tvreg_flat image_u0 image_f1 ''gaussian'' 2 state_s0))
            = calls state_s0 @ CallSetLambda 0.3546215 # ext)"
proof -
  have sigma: "(0::real) < 2" by simp
  have model: "TvRegSetNoiseModel opt_default ''gaussian''
                 = Some (opt_default\<lparr>OptNoiseModel := Gaussian\<rparr>)"
    by (simp add: TvRegSetNoiseModel_def)
  have spec: "InitialLambda_spec Gaussian 2 = 0.3546215"
    by (simp add: InitialLambda_spec_def)
  from LambdaTune_initial_lambda [OF sigma model, of tvreg_flat image_u0 image_f1 state_s0]
    sigma model spec
  show ?thesis by simp
qed

subsection \<open>Denoise\<close>

text \<open>
  C3: for \<open>sigma > 0\<close>, a recognized model and a solver that reports success, the
  tuner runs exactly 5 rounds, each of one solver call, one residual and one
  correction of lambda, and \<open>Denoise\<close> then makes exactly one more solver call, with
  tolerance \<open>5e-4\<close> and at most 100 iterations.
\<close>

theorem Denoise_tuning_rounds:
  assumes sigma: "0 < sigma"
    and newopt: "TvRegNewOpt env = Some opt0"
    and model: "model \<in> {''gaussian'', ''laplace'', ''poisson''}"
    and ok: "\<And>opt uD. fst (TvRestore env opt uD f)"
  shows "fst (Denoise env u f model sigma lambda) \<and>
    (\<exists>lambda0 rs ofin rfin.
       snd (snd (Denoise env u f model sigma lambda)) =
         [CallSetNoiseModel model, CallSetPlotFun, CallSetTol 0.01, CallSetMaxIter 40,
          CallSetLambda lambda0]
         @ concat (map round_calls rs)
         @ [CallSetTol 0.0005, CallSetMaxIter 100, CallRestore ofin, CallRmse rfin] \<and>
       length rs = 5 \<and> OptTol ofin = 0.0005 \<and> OptMaxIter ofin = 100)"
proof -
  from model obtain opt1 where opt1: "TvRegSetNoiseModel opt0 model = Some opt1"
    using TvRegSetNoiseModel_recognized by blast
  from model obtain l0 where l0: "LambdaTune_estimate model sigma = Some l0"
    using LambdaTune_estimate_recognized by blast
  define st1 where "st1 = SetMaxIter 40 (SetTol 0.01 (SetPlotFun
      \<lparr>Opt = opt1,
       uData = memcpy (Data u) (Data f) (nat (Width f * Height f * NumChannels f)),
       calls = [CallSetNoiseModel model]\<rparr>))"
  define st2 where "st2 = SetLambda (LambdaTune_floor l0) st1"
  have cs2: "calls st2 = [CallSetNoiseModel model, CallSetPlotFun, CallSetTol 0.01,
      CallSetMaxIter 40, CallSetLambda (LambdaTune_floor l0)]"
    by (simp add: st2_def st1_def SetLambda_def SetMaxIter_def SetTol_def SetPlotFun_def)
  obtain rs st3 where
    loop: "LambdaTune_loop env u f model sigma 0 (LambdaTune_floor l0) st2 = (True, st3)"
    and len: "length rs = 5"
    and cs3: "calls st3 = calls st2 @ concat (map round_calls rs)"
    using LambdaTune_loop_rounds [OF ok, of 0 u model sigma "LambdaTune_floor l0" st2]
    by (auto simp: LAMBDA_TUNE_ITERATIONS_def)
  have tune: "LambdaTune env u f model sigma st1 = (True, st3)"
    by (simp add: LambdaTune_def l0 Let_def st2_def [symmetric] loop)
  define st4 where "st4 = SetMaxIter 100 (SetTol 0.0005 st3)"
  define ofin where "ofin = Opt st4"
  define uD where "uD = snd (TvRestore env ofin (uData st4) f)"
  define rfin where "rfin = ComputeRmse f (u\<lparr>Data := uD\<rparr>)"
  have fin: "Denoise_final env u f sigma st3 =
      (True, st4\<lparr>uData := uD,
                 calls := calls st3 @ [CallSetTol 0.0005, CallSetMaxIter 100,
                                       CallRestore ofin, CallRmse rfin]\<rparr>)"
    using sigma ok
    by (simp add: Denoise_final_def Restore_def MeasureRmse_def Let_def
        st4_def ofin_def uD_def rfin_def SetMaxIter_def SetTol_def)
  have den: "Denoise env u f model sigma lambda =
      (True, uD, calls st3 @ [CallSetTol 0.0005, CallSetMaxIter 100,
                              CallRestore ofin, CallRmse rfin])"
    unfolding Denoise_def Let_def newopt opt1 option.case st1_def [symmetric]
    using sigma by (simp add: tune fin)
  have "OptTol ofin = 0.0005" and "OptMaxIter ofin = 100"
    by (simp_all add: ofin_def st4_def SetMaxIter_def SetTol_def TvRegSetMaxIter_def
        TvRegSetTol_def)
  with den cs2 cs3 len show ?thesis
    by auto
qed


theorem Denoise_tuning_rounds_witness:
  "(0::real) < 1 / 2 \<and> TvRegNewOpt tvreg_flat = Some opt_default \<and>
   ''laplace'' \<in> {''gaussian'', ''laplace'', ''poisson''} \<and>
   (\<forall>opt uD. fst (TvRestore tvreg_flat opt uD image_f1)) \<and>
   fst (Denoise tvreg_flat image_u0 image_f1 ''laplace'' (1 / 2) 1) \<and>
   (\<exists>lambda0 rs ofin rfin.
      snd (snd (Denoise tvreg_flat image_u0 image_f1 ''laplace'' (1 / 2) 1)) =
        [CallSetNoiseModel ''laplace'', CallSetPlotFun, CallSetTol 0.01, CallSetMaxIter 40,
         CallSetLambda lambda0]
        @ concat (map round_calls rs)
        @ [CallSetTol 0.0005, CallSetMaxIter 100, CallRestore ofin, CallRmse rfin] \<and>
      length rs = 5 \<and> OptTol ofin = 0.0005 \<and> OptMaxIter ofin = 100)"
proof -
  have sigma: "(0::real) < 1 / 2" by simp
  have newopt: "TvRegNewOpt tvreg_flat = Some opt_default"
    by (simp add: tvreg_flat_def)
  have model: "''laplace'' \<in> {''gaussian'', ''laplace'', ''poisson''}" by simp
  have ok: "fst (TvRestore tvreg_flat opt uD image_f1)" for opt uD
    by (simp add: tvreg_flat_def)
  from Denoise_tuning_rounds [OF sigma newopt model ok, of image_u0 1] sigma newopt model ok
  show ?thesis by blast
qed

text \<open>
  C9: for \<open>sigma \<le> 0\<close> and a recognized model, \<open>Denoise\<close> stores the lambda of the
  user in the options, makes no call of the tuner (no residual is measured and no
  other lambda is stored), and the one solver call it makes carries that lambda.
\<close>

theorem Denoise_fixed_lambda:
  assumes sigma: "sigma \<le> 0"
    and newopt: "TvRegNewOpt env = Some opt0"
    and model: "model \<in> {''gaussian'', ''laplace'', ''poisson''}"
  shows "\<exists>ofin.
       snd (snd (Denoise env u f model sigma lambda)) =
         [CallSetNoiseModel model, CallSetPlotFun, CallSetTol 0.01, CallSetMaxIter 40,
          CallSetLambda lambda, CallSetTol 0.0005, CallSetMaxIter 100, CallRestore ofin] \<and>
       OptLambda ofin = lambda"
proof -
  from model obtain opt1 where opt1: "TvRegSetNoiseModel opt0 model = Some opt1"
    using TvRegSetNoiseModel_recognized by blast
  show ?thesis
    using sigma
    by (simp add: Denoise_def newopt opt1 Let_def Denoise_final_def Restore_def
        SetLambda_def SetMaxIter_def SetTol_def SetPlotFun_def TvRegSetLambda_def
        TvRegSetMaxIter_def TvRegSetTol_def TvRegSetPlotFun_def)
qed

theorem Denoise_fixed_lambda_witness:
  "(0::real) \<le> 0 \<and> TvRegNewOpt tvreg_flat = Some opt_default \<and>
   ''poisson'' \<in> {''gaussian'', ''laplace'', ''poisson''} \<and>
   Denoise tvreg_flat image_u0 image_f1 ''poisson'' 0 7 =
     (True, [0, 0],
      [CallSetNoiseModel ''poisson'', CallSetPlotFun, CallSetTol 0.01, CallSetMaxIter 40,
       CallSetLambda 7, CallSetTol 0.0005, CallSetMaxIter 100,
       CallRestore \<lparr>OptLambda = 7, OptNoiseModel = Poisson, OptTol = 0.0005,
                    OptMaxIter = 100, OptPlotFun = False\<rparr>])"
proof -
  have sigma: "(0::real) \<le> 0" by simp
  have newopt: "TvRegNewOpt tvreg_flat = Some opt_default"
    by (simp add: tvreg_flat_def)
  have model: "''poisson'' \<in> {''gaussian'', ''laplace'', ''poisson''}" by simp
  from Denoise_fixed_lambda [OF sigma newopt model, of image_u0 image_f1 7]
  obtain ofin where
    cs: "snd (snd (Denoise tvreg_flat image_u0 image_f1 ''poisson'' 0 7)) =
         [CallSetNoiseModel ''poisson'', CallSetPlotFun, CallSetTol 0.01, CallSetMaxIter 40,
          CallSetLambda 7, CallSetTol 0.0005, CallSetMaxIter 100, CallRestore ofin]"
    by blast
  have run: "Denoise tvreg_flat image_u0 image_f1 ''poisson'' 0 7 =
     (True, [0, 0],
      [CallSetNoiseModel ''poisson'', CallSetPlotFun, CallSetTol 0.01, CallSetMaxIter 40,
       CallSetLambda 7, CallSetTol 0.0005, CallSetMaxIter 100,
       CallRestore \<lparr>OptLambda = 7, OptNoiseModel = Poisson, OptTol = 0.0005,
                    OptMaxIter = 100, OptPlotFun = False\<rparr>])"
    by (simp add: Denoise_def Denoise_final_def Restore_def SetLambda_def SetTol_def
        SetMaxIter_def SetPlotFun_def TvRegSetLambda_def TvRegSetTol_def TvRegSetMaxIter_def
        TvRegSetPlotFun_def TvRegSetNoiseModel_def memcpy_def Let_def tvreg_flat_def
        opt_default_def image_u0_def image_f1_def)
  with cs sigma newopt model show ?thesis by simp
qed

text \<open>
  C1, as amended: for a model name other than gaussian, laplace and poisson,
  \<open>Denoise\<close> returns failure without any solver call and before the copy of \<open>f\<close>, so
  the buffer of \<open>u\<close> is left as it was on entry.
\<close>

theorem Denoise_unrecognized_model:
  assumes "model \<notin> {''gaussian'', ''laplace'', ''poisson''}"
  shows "\<not> fst (Denoise env u f model sigma lambda) \<and>
         fst (snd (Denoise env u f model sigma lambda)) = Data u \<and>
         (\<forall>opt. CallRestore opt \<notin> set (snd (snd (Denoise env u f model sigma lambda))))"
proof -
  from assms have "\<And>opt. TvRegSetNoiseModel opt model = None"
    by (simp add: TvRegSetNoiseModel_def)
  then show ?thesis
    by (cases "TvRegNewOpt env") (simp_all add: Denoise_def)
qed

theorem Denoise_unrecognized_model_witness:
  "''speckle'' \<notin> {''gaussian'', ''laplace'', ''poisson''} \<and>
   \<not> fst (Denoise tvreg_keep image_u0 image_f0 ''speckle'' 2 1) \<and>
   fst (snd (Denoise tvreg_keep image_u0 image_f0 ''speckle'' 2 1)) = Data image_u0 \<and>
   (\<forall>opt. CallRestore opt
      \<notin> set (snd (snd (Denoise tvreg_keep image_u0 image_f0 ''speckle'' 2 1))))"
proof -
  have model: "''speckle'' \<notin> {''gaussian'', ''laplace'', ''poisson''}" by simp
  from Denoise_unrecognized_model [OF model, of tvreg_keep image_u0 image_f0 2 1] model
  show ?thesis by blast
qed

text \<open>
  The claim C1 as stated fails: with the model name speckle the buffer of \<open>u\<close>,
  here \<open>[1, 2]\<close>, is not made equal to that of \<open>f\<close>, here \<open>[3, 0]\<close>.
\<close>

theorem Denoise_unrecognized_model_counterexample:
  "fst (snd (Denoise tvreg_keep image_u0 image_f0 ''speckle'' 2 1)) \<noteq> Data image_f0"
  by (simp add: Denoise_def tvreg_keep_def TvRegSetNoiseModel_def image_u0_def image_f0_def)

subsection \<open>A zero residual\<close>

lemma zero_sticks_append:
  "zero_sticks z (xs @ ys) = (zero_sticks z xs \<and> zero_sticks (zero_seen z xs) ys)"
  by (induction z xs rule: zero_sticks.induct) auto

lemma zero_seen_append:
  "zero_seen z (xs @ ys) = zero_seen (zero_seen z xs) ys"
  by (induction z xs rule: zero_seen.induct) auto

lemma zero_sticks_True:
  "zero_sticks True cs \<Longrightarrow> CallRestore opt \<in> set cs \<Longrightarrow> OptLambda opt = 0"
  by (induction "True" cs rule: zero_sticks.induct) auto

lemma zero_sticks_after_zero:
  "zero_sticks z (A @ CallRmse 0 # B) \<Longrightarrow> zero_sticks True B"
  by (induction z A rule: zero_sticks.induct) auto

lemma LambdaTune_correct_zero:
  "LambdaTune_correct model 0 rmse sigma = 0" "LambdaTune_correct model lambda 0 sigma = 0"
  by (simp_all add: LambdaTune_correct_def)

lemma LambdaTune_loop_zero_sticks:
  assumes "z \<longrightarrow> lambda = 0" and "OptLambda (Opt st) = lambda"
  shows "\<exists>ext. calls (snd (LambdaTune_loop env u f model sigma k lambda st)) = calls st @ ext \<and>
           zero_sticks z ext \<and>
           (zero_seen z ext \<longrightarrow>
              OptLambda (Opt (snd (LambdaTune_loop env u f model sigma k lambda st))) = 0)"
  using assms
proof (induction env u f model sigma k lambda st arbitrary: z rule: LambdaTune_loop.induct)
  case (1 env u f model sigma k lambda st)
  define r where "r = LambdaTune_round env u f model sigma lambda st"
  show ?case
  proof (cases "k < LAMBDA_TUNE_ITERATIONS")
    case False
    with "1.prems" show ?thesis
      by (subst (1 2) LambdaTune_loop.simps) simp
  next
    case True
    show ?thesis
    proof (cases "fst (TvRestore env (Opt st) (uData st) f)")
      case False
      with "1.prems" True show ?thesis
        by (subst (1 2) LambdaTune_loop.simps)
           (simp add: LambdaTune_round_fail Let_def)
    next
      case solve: True
      define rmse where
        "rmse = ComputeRmse f (u\<lparr>Data := snd (TvRestore env (Opt st) (uData st) f)\<rparr>)"
      define z' where "z' \<longleftrightarrow> z \<or> rmse = 0"
      have r1: "fst r" and l': "fst (snd r) = LambdaTune_correct model lambda rmse sigma"
        and o': "OptLambda (Opt (snd (snd r))) = fst (snd r)"
        and cs: "calls (snd (snd r)) = calls st @ round_calls (Opt st, rmse, fst (snd r))"
        by (simp_all add: r_def rmse_def LambdaTune_round_ok [OF solve] Let_def)
      have inv: "z' \<longrightarrow> fst (snd r) = 0"
        using "1.prems"(1) by (auto simp: z'_def l' LambdaTune_correct_zero)
      from "1.IH" [OF True r_def r1 inv o']
      obtain ext where
        e1: "calls (snd (LambdaTune_loop env u f model sigma (k + 1) (fst (snd r)) (snd (snd r))))
               = calls (snd (snd r)) @ ext"
        and e2: "zero_sticks z' ext"
        and e3: "zero_seen z' ext \<longrightarrow>
              OptLambda (Opt (snd (LambdaTune_loop env u f model sigma (k + 1)
                 (fst (snd r)) (snd (snd r))))) = 0"
        by blast
      have unfold: "LambdaTune_loop env u f model sigma k lambda st
              = LambdaTune_loop env u f model sigma (k + 1) (fst (snd r)) (snd (snd r))"
        using True r1 by (subst LambdaTune_loop.simps) (simp add: Let_def r_def)
      let ?ext = "round_calls (Opt st, rmse, fst (snd r)) @ ext"
      have "calls (snd (LambdaTune_loop env u f model sigma k lambda st)) = calls st @ ?ext"
        by (simp add: unfold e1 cs)
      moreover have "zero_sticks z ?ext"
        using e2 "1.prems" by (auto simp: z'_def)
      moreover have "zero_seen z ?ext \<longrightarrow>
          OptLambda (Opt (snd (LambdaTune_loop env u f model sigma k lambda st))) = 0"
        using e3 by (auto simp: z'_def unfold)
      ultimately show ?thesis by blast
    qed
  qed
qed

lemma Denoise_zero_sticks:
  "zero_sticks False (snd (snd (Denoise env u f model sigma lambda)))"
proof (cases "TvRegNewOpt env")
  case None
  then show ?thesis by (simp add: Denoise_def)
next
  case (Some opt0)
  show ?thesis
  proof (cases "TvRegSetNoiseModel opt0 model")
    case None
    with Some show ?thesis by (simp add: Denoise_def)
  next
    case opt1: (Some opt1)
    define st1 where "st1 = SetMaxIter 40 (SetTol 0.01 (SetPlotFun
      \<lparr>Opt = opt1,
       uData = memcpy (Data u) (Data f) (nat (Width f * Height f * NumChannels f)),
       calls = [CallSetNoiseModel model]\<rparr>))"
    have cs1: "calls st1 = [CallSetNoiseModel model, CallSetPlotFun, CallSetTol 0.01,
        CallSetMaxIter 40]"
      by (simp add: st1_def SetMaxIter_def SetTol_def SetPlotFun_def)
    define t where "t = (if sigma \<le> 0 then (True, SetLambda lambda st1)
                         else LambdaTune env u f model sigma st1)"
    have t: "\<exists>ext. calls (snd t) = calls st1 @ ext \<and> zero_sticks False ext \<and>
               (zero_seen False ext \<longrightarrow> OptLambda (Opt (snd t)) = 0)"
    proof (cases "sigma \<le> 0")
      case True
      then show ?thesis by (simp add: t_def SetLambda_def)
    next
      case False
      show ?thesis
      proof (cases "LambdaTune_estimate model sigma")
        case None
        with False show ?thesis by (simp add: t_def LambdaTune_def)
      next
        case (Some l0)
        define st2 where "st2 = SetLambda (LambdaTune_floor l0) st1"
        have "OptLambda (Opt st2) = LambdaTune_floor l0"
          by (simp add: st2_def SetLambda_def TvRegSetLambda_def)
        from LambdaTune_loop_zero_sticks [OF _ this, of False env u f model sigma 0]
        obtain ext where
          "calls (snd (LambdaTune_loop env u f model sigma 0 (LambdaTune_floor l0) st2))
             = calls st2 @ ext"
          "zero_sticks False ext"
          "zero_seen False ext \<longrightarrow>
             OptLambda (Opt (snd (LambdaTune_loop env u f model sigma 0
               (LambdaTune_floor l0) st2))) = 0"
          by auto
        then have "calls (snd t) = calls st1 @ CallSetLambda (LambdaTune_floor l0) # ext \<and>
            zero_sticks False (CallSetLambda (LambdaTune_floor l0) # ext) \<and>
            (zero_seen False (CallSetLambda (LambdaTune_floor l0) # ext)
               \<longrightarrow> OptLambda (Opt (snd t)) = 0)"
          using False
          by (simp add: t_def LambdaTune_def Some Let_def st2_def [symmetric])
             (simp add: st2_def SetLambda_def)
        then show ?thesis by blast
      qed
    qed
    then obtain ext where ext: "calls (snd t) = calls st1 @ ext"
      and zs: "zero_sticks False ext"
      and zo: "zero_seen False ext \<longrightarrow> OptLambda (Opt (snd t)) = 0"
      by blast
    have pre: "zero_sticks False (calls (snd t))"
      and seen: "zero_seen False (calls (snd t)) = zero_seen False ext"
      by (simp_all add: ext cs1 zs)
    have den: "snd (snd (Denoise env u f model sigma lambda)) =
        calls (snd (if \<not> fst t then (False, snd t) else Denoise_final env u f sigma (snd t)))"
      unfolding Denoise_def Let_def Some opt1 option.case st1_def [symmetric] t_def [symmetric]
      by simp
    show ?thesis
    proof (cases "fst t")
      case False
      with den pre show ?thesis by simp
    next
      case True
      have "\<exists>tail. calls (snd (Denoise_final env u f sigma (snd t))) =
          calls (snd t) @ CallSetTol 0.0005 # CallSetMaxIter 100
            # CallRestore (TvRegSetMaxIter (TvRegSetTol (Opt (snd t)) 0.0005) 100) # tail \<and>
          (tail = [] \<or> (\<exists>r. tail = [CallRmse r]))"
        by (simp add: Denoise_final_def Restore_def MeasureRmse_def SetMaxIter_def SetTol_def
            Let_def)
      then obtain tail where
        fin: "calls (snd (Denoise_final env u f sigma (snd t))) =
          calls (snd t) @ CallSetTol 0.0005 # CallSetMaxIter 100
            # CallRestore (TvRegSetMaxIter (TvRegSetTol (Opt (snd t)) 0.0005) 100) # tail"
        and tail: "tail = [] \<or> (\<exists>r. tail = [CallRmse r])"
        by blast
      have "zero_sticks False (calls (snd (Denoise_final env u f sigma (snd t))))"
        using pre seen zo tail
        by (auto simp: fin zero_sticks_append TvRegSetMaxIter_def TvRegSetTol_def)
      with den True show ?thesis by simp
    qed
  qed
qed

text \<open>
  C10: only the initial estimate is clamped to \<open>1e-4\<close>. Once a residual of 0 has
  been measured, every later solver call of the run, in the remaining rounds and in
  the final solve, is made with lambda exactly 0.
\<close>

theorem Denoise_zero_rmse_zero_lambda:
  assumes "snd (snd (Denoise env u f model sigma lambda)) = A @ CallRmse 0 # B"
    and "CallRestore opt \<in> set B"
  shows "OptLambda opt = 0"
proof -
  have "zero_sticks False (A @ CallRmse 0 # B)"
    using Denoise_zero_sticks [of env u f model sigma lambda] assms(1) by simp
  then have "zero_sticks True B"
    by (rule zero_sticks_after_zero)
  then show ?thesis
    using assms(2) by (rule zero_sticks_True)
qed

theorem Denoise_zero_rmse_zero_lambda_witness:
  "snd (snd (Denoise tvreg_keep image_u0 image_f0 ''gaussian'' 2 1)) =
     [CallSetNoiseModel ''gaussian'', CallSetPlotFun, CallSetTol 0.01, CallSetMaxIter 40,
      CallSetLambda 0.3546215,
      CallRestore \<lparr>OptLambda = 0.3546215, OptNoiseModel = Gaussian, OptTol = 0.01,
                   OptMaxIter = 40, OptPlotFun = False\<rparr>]
     @ CallRmse 0
     # drop 7 (snd (snd (Denoise tvreg_keep image_u0 image_f0 ''gaussian'' 2 1))) \<and>
   CallRestore \<lparr>OptLambda = 0, OptNoiseModel = Gaussian, OptTol = 0.0005,
                OptMaxIter = 100, OptPlotFun = False\<rparr>
     \<in> set (drop 7 (snd (snd (Denoise tvreg_keep image_u0 image_f0 ''gaussian'' 2 1)))) \<and>
   OptLambda \<lparr>OptLambda = 0, OptNoiseModel = Gaussian, OptTol = 0.0005,
              OptMaxIter = 100, OptPlotFun = False\<rparr> = 0"
proof -
  have run: "Denoise tvreg_keep image_u0 image_f0 ''gaussian'' 2 1 =
    (True, [3, 0],
      [CallSetNoiseModel ''gaussian'', CallSetPlotFun, CallSetTol 0.01, CallSetMaxIter 40,
       CallSetLambda 0.3546215,
       CallRestore \<lparr>OptLambda = 0.3546215, OptNoiseModel = Gaussian, OptTol = 0.01,
                    OptMaxIter = 40, OptPlotFun = False\<rparr>,
       CallRmse 0, CallSetLambda 0,
       CallRestore \<lparr>OptLambda = 0, OptNoiseModel = Gaussian, OptTol = 0.01,
                    OptMaxIter = 40, OptPlotFun = False\<rparr>,
       CallRmse 0, CallSetLambda 0,
       CallRestore \<lparr>OptLambda = 0, OptNoiseModel = Gaussian, OptTol = 0.01,
                    OptMaxIter = 40, OptPlotFun = False\<rparr>,
       CallRmse 0, CallSetLambda 0,
       CallRestore \<lparr>OptLambda = 0, OptNoiseModel = Gaussian, OptTol = 0.01,
                    OptMaxIter = 40, OptPlotFun = False\<rparr>,
       CallRmse 0, CallSetLambda 0,
       CallRestore \<lparr>OptLambda = 0, OptNoiseModel = Gaussian, OptTol = 0.01,
                    OptMaxIter = 40, OptPlotFun = False\<rparr>,
       CallRmse 0, CallSetLambda 0,
       CallSetTol 0.0005, CallSetMaxIter 100,
       CallRestore \<lparr>OptLambda = 0, OptNoiseModel = Gaussian, OptTol = 0.0005,
                    OptMaxIter = 100, OptPlotFun = False\<rparr>,
       CallRmse 0])"
    by (simp add: Denoise_def Denoise_final_def LambdaTune_def LambdaTune_loop.simps
        LambdaTune_round_def LambdaTune_estimate_def LambdaTune_floor_def
        LambdaTune_correct_def Restore_def MeasureRmse_def SetLambda_def SetTol_def
        SetMaxIter_def SetPlotFun_def TvRegSetLambda_def TvRegSetTol_def TvRegSetMaxIter_def
        TvRegSetPlotFun_def TvRegSetNoiseModel_def memcpy_def ComputeRmse_def
        ComputeRmse_loop.simps LAMBDA_TUNE_ITERATIONS_def Let_def tvreg_keep_def
        opt_default_def image_u0_def image_f0_def)
  have split: "snd (snd (Denoise tvreg_keep image_u0 image_f0 ''gaussian'' 2 1)) =
     [CallSetNoiseModel ''gaussian'', CallSetPlotFun, CallSetTol 0.01, CallSetMaxIter 40,
      CallSetLambda 0.3546215,
      CallRestore \<lparr>OptLambda = 0.3546215, OptNoiseModel = Gaussian, OptTol = 0.01,
                   OptMaxIter = 40, OptPlotFun = False\<rparr>]
     @ CallRmse 0
     # drop 7 (snd (snd (Denoise tvreg_keep image_u0 image_f0 ''gaussian'' 2 1)))"
    by (simp add: run)
  have mem: "CallRestore \<lparr>OptLambda = 0, OptNoiseModel = Gaussian, OptTol = 0.0005,
                OptMaxIter = 100, OptPlotFun = False\<rparr>
     \<in> set (drop 7 (snd (snd (Denoise tvreg_keep image_u0 image_f0 ''gaussian'' 2 1))))"
    by (simp add: run)
  from Denoise_zero_rmse_zero_lambda [OF split mem] split mem
  show ?thesis by blast
qed

subsection \<open>ParseParams\<close>

lemma ParseOption_set_or_default:
  "ParseOption libjpeg atof atoi c s P = Inr P' \<Longrightarrow> set_or_default P \<Longrightarrow> set_or_default P'"
  by (auto simp: ParseOption_def set_or_default_def Let_def split: if_splits)

lemma ParseParams_loop_set_or_default:
  "ParseParams_loop libjpeg atof atoi P args = Inr P' \<Longrightarrow> set_or_default P
     \<Longrightarrow> set_or_default P'"
proof (induction libjpeg atof atoi P args rule: ParseParams_loop.induct)
  case (1 libjpeg atof atoi P)
  then show ?case by simp
next
  case (2 libjpeg atof atoi P a rest)
  have upd: "set_or_default (P\<lparr>InputFile := x\<rparr>)" "set_or_default (P\<lparr>OutputFile := x\<rparr>)" for x
    using "2.prems"(2) by (simp_all add: set_or_default_def)
  from "2.prems"(1) show ?case
    by (auto split: if_splits sum.splits list.splits
        intro: "2.IH" upd dest: ParseOption_set_or_default [OF _ "2.prems"(2)])
qed

text \<open>
  A successful \<open>ParseParams\<close> has at least one of sigma and lambda set.
\<close>

lemma ParseParams_success_only:
  assumes "ParseParams libjpeg atof atoi argv = Inr P"
  shows "0 < ParamSigma P \<or> 0 < ParamLambda P"
proof -
  from assms have loop: "ParseParams_loop libjpeg atof atoi ParseParams_defaults (tl argv) = Inr P"
    and neg: "\<not> (ParamSigma P < 0 \<and> ParamLambda P < 0)"
    by (auto simp: ParseParams_def split: if_splits sum.splits)
  have "set_or_default ParseParams_defaults"
    by (simp add: set_or_default_def ParseParams_defaults_def)
  with loop have "set_or_default P"
    by (rule ParseParams_loop_set_or_default)
  with neg show ?thesis
    by (auto simp: set_or_default_def)
qed

text \<open>
  C2, as amended: on a command line whose options all parse and that names an input
  file, \<open>ParseParams\<close> succeeds exactly when at least one of sigma and lambda has
  been set by the user (setting both is accepted); when neither has been set it
  reports that either sigma or lambda must be specified, and fails.
\<close>

theorem ParseParams_sigma_or_lambda:
  assumes loop: "ParseParams_loop libjpeg atof atoi ParseParams_defaults (tl argv) = Inr P"
    and argc: "2 \<le> length argv"
    and input: "InputFile P \<noteq> None"
  shows "ParseParams libjpeg atof atoi argv =
           (if 0 < ParamSigma P \<or> 0 < ParamLambda P then Inr P else Inl NeitherSpecified)"
proof -
  have "set_or_default ParseParams_defaults"
    by (simp add: set_or_default_def ParseParams_defaults_def)
  with loop have "set_or_default P"
    by (rule ParseParams_loop_set_or_default)
  then have "(ParamSigma P < 0 \<and> ParamLambda P < 0)
               \<longleftrightarrow> \<not> (0 < ParamSigma P \<or> 0 < ParamLambda P)"
    by (auto simp: set_or_default_def)
  with loop argc input show ?thesis
    by (auto simp: ParseParams_def)
qed

theorem ParseParams_sigma_or_lambda_witness:
  "ParseParams_loop False atof_digits atoi_digits ParseParams_defaults (tl argv_sigma) =
     Inr \<lparr>InputFile = Some ''noisy.bmp'', OutputFile = Some ''denoised.bmp'',
          JpegQuality = 95, ParamModel = ''laplace'', ParamSigma = 10 / 255,
          ParamLambda = - 1\<rparr> \<and>
   2 \<le> length argv_sigma \<and>
   ParseParams False atof_digits atoi_digits argv_sigma =
     Inr \<lparr>InputFile = Some ''noisy.bmp'', OutputFile = Some ''denoised.bmp'',
          JpegQuality = 95, ParamModel = ''laplace'', ParamSigma = 10 / 255,
          ParamLambda = - 1\<rparr> \<and>
   ParseParams_loop False atof_digits atoi_digits ParseParams_defaults (tl argv_neither) =
     Inr \<lparr>InputFile = Some ''noisy.bmp'', OutputFile = Some ''denoised.bmp'',
          JpegQuality = 95, ParamModel = ''laplace'', ParamSigma = - 1,
          ParamLambda = - 1\<rparr> \<and>
   2 \<le> length argv_neither \<and>
   ParseParams False atof_digits atoi_digits argv_neither = Inl NeitherSpecified"
proof -
  have loop: "ParseParams_loop False atof_digits atoi_digits ParseParams_defaults
                (tl argv_sigma) =
     Inr \<lparr>InputFile = Some ''noisy.bmp'', OutputFile = Some ''denoised.bmp'',
          JpegQuality = 95, ParamModel = ''laplace'', ParamSigma = 10 / 255,
          ParamLambda = - 1\<rparr>"
    by (simp add: ParseOption_def ParseParams_defaults_def argv_sigma_def
        atof_digits_def DISPLAY_SCALING_def Let_def)
  have argc: "2 \<le> length argv_sigma"
    by (simp add: argv_sigma_def)
  have loop': "ParseParams_loop False atof_digits atoi_digits ParseParams_defaults
                (tl argv_neither) =
     Inr \<lparr>InputFile = Some ''noisy.bmp'', OutputFile = Some ''denoised.bmp'',
          JpegQuality = 95, ParamModel = ''laplace'', ParamSigma = - 1,
          ParamLambda = - 1\<rparr>"
    by (simp add: ParseOption_def ParseParams_defaults_def argv_neither_def Let_def)
  have argc': "2 \<le> length argv_neither"
    by (simp add: argv_neither_def)
  from ParseParams_sigma_or_lambda [OF loop argc] ParseParams_sigma_or_lambda [OF loop' argc']
    loop argc loop' argc'
  show ?thesis by simp
qed

text \<open>
  The claim C2 as stated fails: a command line that sets both sigma and lambda is
  accepted.
\<close>

theorem ParseParams_both_counterexample:
  "ParseParams False atof_digits atoi_digits argv_both =
     Inr \<lparr>InputFile = Some ''noisy.bmp'', OutputFile = Some ''denoised.bmp'',
          JpegQuality = 95, ParamModel = ''gaussian'', ParamSigma = 10 / 255,
          ParamLambda = 5\<rparr>"
  by (simp add: ParseParams_def ParseOption_def ParseParams_defaults_def argv_both_def
      atof_digits_def DISPLAY_SCALING_def Let_def)

end
